theory Spec2Isabelle
  imports Complex_Main
begin

section \<open>The path-following environment \<open>BaseShipScenario\<close> (gym\_auv/environment.py)\<close>

text \<open>
  The class \<open>BaseShipScenario\<close> holds the episode state of a vessel that follows a path.
  Its methods \<open>step\<close> and \<open>reset\<close> mutate the object; here they are functions from the
  state before the call to the outcome of the call together with the state after it.
  A raised exception is the outcome \<open>Inl e\<close>; the state that comes with it is the state
  the object is left in, since Python rolls nothing back.

  Numbers. The scalar quantities of the progress computation (arclengths, angles,
  speed, rewards) are real numbers, so rounding and overflow of the machine floats are
  not part of the model. The entries of an observation vector are \<open>pyfloat\<close> values,
  because the validity check of the observation is a check for the special float NaN.
\<close>

subsection \<open>Values and errors\<close>

datatype pyfloat = Finite real | PosInf | NegInf | NaN

text \<open>\<open>np.isnan\<close> on one entry, and what "finite" means for one entry.\<close>

definition isnan :: "pyfloat \<Rightarrow> bool" where
  "isnan x = (x = NaN)"

definition isfinite :: "pyfloat \<Rightarrow> bool" where
  "isfinite x = (case x of Finite r \<Rightarrow> True | PosInf \<Rightarrow> False | NegInf \<Rightarrow> False | NaN \<Rightarrow> False)"

type_synonym obs = "pyfloat list"
type_synonym action = "real \<times> real"
type_synonym point = "real \<times> real"
type_synonym info = "string \<Rightarrow> pyfloat option"

text \<open>
  The exceptions the modelled code can raise. \<open>AssertionError v\<close> carries the
  observation vector \<open>v\<close> that the message
  \<^verbatim>\<open>'Observation vector "{}" contains nan values.'.format(str(obs))\<close> prints.
\<close>

datatype error =
    AttributeError
  | AssertionError obs
  | ValueError
  | ZeroDivisionError
  | IndexError

subsection \<open>Configuration\<close>

text \<open>
  The keys of \<open>env_config\<close> that the base class reads. The reward weights and the
  cruise speed are read only by the scenario's own \<open>step_reward\<close> and \<open>observe\<close>.
\<close>

record config =
  n_sectors :: int
  n_sensors_per_sector :: int
  t_step_size :: real
  min_la_dist :: real
  max_closest_point_distance :: real
  max_closest_point_heading_error :: real
  max_timestemps :: int

subsection \<open>The state of the environment\<close>

record past_errors =
  pe_speed :: "real list"
  pe_cross_track :: "real list"
  pe_heading :: "real list"
  pe_la_heading :: "real list"

text \<open>
  The attributes that \<open>reset\<close> clears and that only the scenario's own methods write
  afterwards: the look-ahead point, the nearby obstacles, the error histories.
\<close>

record 'o ext =
  nearby_obstacles :: "'o list"
  look_ahead_point :: "point option"
  look_ahead_arclength :: "real option"
  past_errors :: past_errors

text \<open>
  The attributes of the object. \<open>'v\<close> is the vessel, \<open>'p\<close> the path, \<open>'o\<close> an obstacle
  and \<open>'r\<close> the random generator. An attribute that can hold Python's \<open>None\<close> when a
  modelled line reads it is an option. \<open>memory\<close> is \<open>None\<close> for the empty list set by
  the constructor. The viewer and the sensor measurement buffers are written and read
  only outside this file and are left out.
\<close>

record ('v, 'p, 'o, 'r) env =
  sensor_angles :: "real list"
  vessel :: "'v option"
  path :: "'p option"
  obstacles :: "'o list"
  ext :: "'o ext"
  np_random :: "'r option"
  cumulative_reward :: real
  past_rewards :: "real list"
  max_path_prog :: real
  target_arclength :: real
  path_prog :: "real option list option"
  past_actions :: "action list"
  past_obs :: "obs list option"
  t_step :: int
  total_t_steps :: int
  episode :: int
  memory :: "(point list \<times> point list) option"

subsection \<open>Collaborators and extension points\<close>

text \<open>
  Modelled from the spec: the vessel, the path, the angle wrapping \<open>geom.princip\<close>, the
  seeding utility and the three methods \<open>generate\<close>, \<open>observe\<close> and \<open>step_reward\<close>
  (which raise \<open>NotImplementedError\<close> in the base class and are supplied by a concrete
  scenario) are not in this file. They are parameters, with the interface the spec gives
  them: the vessel exposes \<open>step\<close>, \<open>position\<close>, \<open>course\<close>, \<open>speed\<close> and \<open>path_taken\<close>; the
  path exposes evaluation at an arclength, \<open>get_direction\<close>, \<open>get_closest_point_distance\<close>,
  \<open>s_max\<close> and \<open>length\<close>; the generator produces a path, a vessel and obstacles from the
  random source; \<open>observe\<close> and \<open>step_reward\<close> read the whole state and write the
  attributes of \<open>ext\<close> only. The flag \<open>numpy_scalars\<close> says which numbers the path hands
  out for its length and its arclengths: numpy scalars, or plain Python numbers.
\<close>

record ('v, 'p, 'o, 'r) scenario =
  vessel_step :: "action \<Rightarrow> 'v \<Rightarrow> 'v"
  position :: "'v \<Rightarrow> point"
  course :: "'v \<Rightarrow> real"
  speed :: "'v \<Rightarrow> real"
  path_taken :: "'v \<Rightarrow> point list"
  path_at :: "'p \<Rightarrow> real \<Rightarrow> point"
  s_max :: "'p \<Rightarrow> real"
  path_length :: "'p \<Rightarrow> real"
  get_closest_point_distance :: "'p \<Rightarrow> point \<Rightarrow> real \<times> point \<times> real"
  get_direction :: "'p \<Rightarrow> real \<Rightarrow> real"
  princip :: "real \<Rightarrow> real"
  numpy_scalars :: bool
  fresh_np_random :: "'r"
  generate :: "'r \<Rightarrow> ('p \<times> 'v \<times> 'o list) \<times> 'r"
  observe :: "('v, 'p, 'o, 'r) env \<Rightarrow> obs \<times> 'o ext"
  step_reward :: "('v, 'p, 'o, 'r) env \<Rightarrow> (bool \<times> real \<times> info) \<times> 'o ext"

subsection \<open>Construction: sensor fan and declared spaces\<close>

definition nstates :: int where
  "nstates = 7"

definition nsensors :: "config \<Rightarrow> int" where
  "nsensors cfg = n_sensors_per_sector cfg * n_sectors cfg"

text \<open>
  \<^verbatim>\<open>[-np.pi/2 + (i + 1)/(self.nsensors + 1)*np.pi for i in range(self.nsensors)]\<close>;
  \<open>range n\<close> is the interval \<open>[0..n - 1]\<close>, empty when \<open>n \<le> 0\<close>.
\<close>

definition sensor_fan :: "config \<Rightarrow> real list" where
  "sensor_fan cfg =
     map (\<lambda>i. - pi / 2 + (of_int i + 1) / (of_int (nsensors cfg) + 1) * pi)
         [0..nsensors cfg - 1]"

definition action_space :: "real list \<times> real list" where
  "action_space = ([0, - 1], [1, 1])"

text \<open>
  The bounds of the observation space: \<open>[-1]*n\<close> and \<open>[1]*n\<close> (empty when \<open>n \<le> 0\<close>),
  then the entry at index \<open>nstates - 1\<close> is overwritten; the list assignment raises
  \<open>IndexError\<close> when the list is too short.
\<close>

definition observation_space :: "config \<Rightarrow> error + (real list \<times> real list)" where
  "observation_space cfg =
     (let nobservations = nstates + n_sectors cfg * 2;
          low_obs = replicate (nat nobservations) (- 1);
          high_obs = replicate (nat nobservations) 1
      in if nat (nstates - 1) < length low_obs
         then Inr (low_obs[nat (nstates - 1) := - 10000],
                   high_obs[nat (nstates - 1) := 10000])
         else Inl IndexError)"

subsection \<open>step\<close>

text \<open>
  Lines 161 to 171: the value of the local \<open>prog\<close>, from the path \<open>p\<close>, the vessel \<open>v\<close>
  after it has moved, and the value \<open>mpp\<close> of \<open>max_path_prog\<close> before the update.
\<close>

definition progress ::
  "config \<Rightarrow> ('v, 'p, 'o, 'r) scenario \<Rightarrow> 'p \<Rightarrow> 'v \<Rightarrow> real \<Rightarrow> real" where
  "progress cfg k p v mpp =
     (case get_closest_point_distance k p (position k v) of
        (closest_point_distance, cp, closest_arclength) \<Rightarrow>
          let closest_point_heading_error =
                princip k (get_direction k p closest_arclength - course k v);
              course_path_angle = princip k (get_direction k p mpp - course k v);
              dprog = cos course_path_angle * speed k v * t_step_size cfg
          in if closest_point_distance < max_closest_point_distance cfg
                \<or> \<bar>closest_point_heading_error\<bar> < max_closest_point_heading_error cfg
             then closest_arclength
             else min (max 0 (mpp + dprog)) (path_length k p))"

text \<open>\<open>np.append(a, x)\<close> where \<open>a\<close> is \<open>None\<close> or a flat array: \<open>None\<close> becomes one entry.\<close>

definition np_append :: "real option list option \<Rightarrow> real \<Rightarrow> real option list" where
  "np_append a x = (case a of None \<Rightarrow> [None, Some x] | Some xs \<Rightarrow> xs @ [Some x])"

text \<open>
  Lines 158 to 182: the action is recorded, the vessel moves, the progress and the
  look-ahead target are updated. The outcome is the local \<open>prog\<close>. Reading an attribute
  of a vessel or path that is \<open>None\<close> raises \<open>AttributeError\<close>.
\<close>

definition track ::
  "config \<Rightarrow> ('v, 'p, 'o, 'r) scenario \<Rightarrow> action \<Rightarrow> ('v, 'p, 'o, 'r) env
     \<Rightarrow> (error + real) \<times> ('v, 'p, 'o, 'r) env" where
  "track cfg k action s =
     (let s1 = s\<lparr>past_actions := past_actions s @ [action]\<rparr>
      in case vessel s1 of
           None \<Rightarrow> (Inl AttributeError, s1)
         | Some v0 \<Rightarrow>
             let v = vessel_step k action v0;
                 s2 = s1\<lparr>vessel := Some v\<rparr>
             in case path s2 of
                  None \<Rightarrow> (Inl AttributeError, s2)
                | Some p \<Rightarrow>
                    let prog = progress cfg k p v (max_path_prog s2);
                        s3 = (if prog > max_path_prog s2
                              then s2\<lparr>max_path_prog := prog\<rparr> else s2);
                        s4 = s3\<lparr>path_prog := Some (np_append (path_prog s3) prog)\<rparr>;
                        target =
                          (case look_ahead_arclength (ext s4) of
                             None \<Rightarrow> max_path_prog s4 + min_la_dist cfg
                           | Some la \<Rightarrow> max la (max_path_prog s4 + min_la_dist cfg));
                        s5 = s4\<lparr>target_arclength := min target (path_length k p)\<rparr>
                    in (Inr prog, s5))"

text \<open>
  \<open>np.vstack([self.past_obs, obs])\<close>: the new row must be as wide as the rows already
  there, else \<open>ValueError\<close>. With \<open>past_obs = None\<close> (a reset that failed its check)
  the call is modelled as \<open>ValueError\<close> too, which is what numpy does for every
  observation wider than one entry.
\<close>

definition vstack_obs :: "obs list option \<Rightarrow> obs \<Rightarrow> error + obs list" where
  "vstack_obs rows ob =
     (case rows of
        None \<Rightarrow> Inl ValueError
      | Some rs \<Rightarrow> if list_all (\<lambda>r. length r = length ob) rs
                   then Inr (rs @ [ob]) else Inl ValueError)"

text \<open>
  The operator \<open>/\<close> of line 188. With a divisor other than zero it is the quotient. With
  a zero divisor it depends on the operands: when both are plain Python numbers, Python
  raises \<open>ZeroDivisionError\<close>; when one is a numpy scalar, numpy returns \<open>nan\<close> for \<open>0/0\<close>
  and an infinity with the sign of the dividend otherwise (and prints a warning). On a
  path of length zero \<open>prog\<close> is a number the path handed out or the literal \<open>0\<close>, so the
  flag of the scenario decides. Signed zeros are not modelled.
\<close>

definition truediv :: "bool \<Rightarrow> real \<Rightarrow> real \<Rightarrow> error + pyfloat" where
  "truediv numpy a b =
     (if b = 0
      then (if numpy
            then Inr (if a = 0 then NaN else if 0 < a then PosInf else NegInf)
            else Inl ZeroDivisionError)
      else Inr (Finite (a / b)))"

text \<open>
  The whole method. After \<open>track\<close>: line 184 calls \<open>observe\<close>, line 185 asserts that no
  entry is NaN, line 186 stores the observation, line 187 calls \<open>step_reward\<close>, line 188
  divides \<open>prog\<close> by \<open>path.length\<close> with no test of the divisor, lines 189 to 195 do the
  bookkeeping and the step-budget check.
\<close>

definition step ::
  "config \<Rightarrow> ('v, 'p, 'o, 'r) scenario \<Rightarrow> action \<Rightarrow> ('v, 'p, 'o, 'r) env
     \<Rightarrow> (error + (obs \<times> real \<times> bool \<times> info)) \<times> ('v, 'p, 'o, 'r) env" where
  "step cfg k action s =
     (case track cfg k action s of
        (Inl e, s5) \<Rightarrow> (Inl e, s5)
      | (Inr prog, s5) \<Rightarrow>
          (case observe k s5 of (ob, x) \<Rightarrow>
             let s6 = s5\<lparr>ext := x\<rparr>
             in if list_ex isnan ob then (Inl (AssertionError ob), s6)
                else case vstack_obs (past_obs s6) ob of
                       Inl e \<Rightarrow> (Inl e, s6)
                     | Inr rows \<Rightarrow>
                         let s7 = s6\<lparr>past_obs := Some rows\<rparr>
                         in case step_reward k s7 of ((done, reward, info0), y) \<Rightarrow>
                              let s8 = s7\<lparr>ext := y\<rparr>
                              in case path s8 of
                                   None \<Rightarrow> (Inl AttributeError, s8)
                                 | Some p \<Rightarrow>
                                     case truediv (numpy_scalars k) prog (path_length k p) of
                                       Inl e \<Rightarrow> (Inl e, s8)
                                     | Inr q \<Rightarrow>
                                       let info' = info0(''progress'' \<mapsto> q);
                                           s9 = s8\<lparr>past_rewards := past_rewards s8 @ [reward],
                                                   cumulative_reward := cumulative_reward s8 + reward,
                                                   t_step := t_step s8 + 1,
                                                   total_t_steps := total_t_steps s8 + 1\<rparr>;
                                           done' = (if t_step s9 > max_timestemps cfg then True else done)
                                       in (Inr (ob, reward, done', info'), s9)))"

subsection \<open>reset\<close>

text \<open>\<open>np.linspace(a, b, n)\<close> for \<open>n > 1\<close>.\<close>

definition linspace :: "real \<Rightarrow> real \<Rightarrow> nat \<Rightarrow> real list" where
  "linspace a b n = map (\<lambda>i. a + (b - a) * real i / real (n - 1)) [0..<n]"

definition empty_errors :: past_errors where
  "empty_errors = \<lparr>pe_speed = [], pe_cross_track = [], pe_heading = [], pe_la_heading = []\<rparr>"

text \<open>
  Lines 209 to 239: the snapshot of the finished episode, the clearing of the episode
  state and the generation of a new path, vessel and obstacles. The snapshot reads the
  path and the vessel, which raises \<open>AttributeError\<close> if either is \<open>None\<close>. The generator
  is seeded only if no generator exists yet.
\<close>

definition regenerate ::
  "config \<Rightarrow> ('v, 'p, 'o, 'r) scenario \<Rightarrow> ('v, 'p, 'o, 'r) env
     \<Rightarrow> (error + unit) \<times> ('v, 'p, 'o, 'r) env" where
  "regenerate cfg k s =
     (case (if t_step s > 0
            then (case (path s, vessel s) of
                    (Some p, Some v) \<Rightarrow>
                      Inr (s\<lparr>memory := Some (map (path_at k p) (linspace 0 (s_max k p) 1000),
                                             path_taken k v)\<rparr>)
                  | (Some p, None) \<Rightarrow> Inl AttributeError
                  | (None, w) \<Rightarrow> Inl AttributeError)
            else Inr s) of
        Inl e \<Rightarrow> (Inl e, s)
      | Inr s1 \<Rightarrow>
          let s2 = s1\<lparr>vessel := None, path := None, cumulative_reward := 0,
                      max_path_prog := 0, target_arclength := 0, path_prog := None,
                      past_obs := None, past_actions := [(0, 0)], past_rewards := [],
                      obstacles := [],
                      ext := \<lparr>nearby_obstacles = [], look_ahead_point = None,
                              look_ahead_arclength = None, past_errors = empty_errors\<rparr>,
                      t_step := 0\<rparr>;
              rng = (case np_random s2 of None \<Rightarrow> fresh_np_random k | Some r \<Rightarrow> r)
          in case generate k rng of ((p, v, os), rng') \<Rightarrow>
               (Inr (), s2\<lparr>np_random := Some rng', path := Some p, vessel := Some v,
                           obstacles := os\<rparr>))"

text \<open>
  The whole method: after \<open>regenerate\<close>, line 240 calls \<open>observe\<close>, line 241 asserts that
  no entry is NaN, lines 242 to 244 store the observation and count the episode.
\<close>

definition reset ::
  "config \<Rightarrow> ('v, 'p, 'o, 'r) scenario \<Rightarrow> ('v, 'p, 'o, 'r) env
     \<Rightarrow> (error + obs) \<times> ('v, 'p, 'o, 'r) env" where
  "reset cfg k s =
     (case regenerate cfg k s of
        (Inl e, s') \<Rightarrow> (Inl e, s')
      | (Inr u, s3) \<Rightarrow>
          (case observe k s3 of (ob, x) \<Rightarrow>
             let s4 = s3\<lparr>ext := x\<rparr>
             in if list_ex isnan ob then (Inl (AssertionError ob), s4)
                else (Inr ob, s4\<lparr>past_obs := Some [ob], episode := episode s4 + 1\<rparr>)))"

subsection \<open>The constructor\<close>

text \<open>
  The attributes as \<open>__init__\<close> sets them before it calls \<open>reset\<close>. The attributes that
  are \<open>None\<close> there and are not options in the record (\<open>max_path_prog\<close>,
  \<open>target_arclength\<close>, \<open>past_rewards\<close>, \<open>past_actions\<close>, the attributes of \<open>ext\<close>) hold a
  placeholder: \<open>reset\<close> overwrites each of them before any line reads it.
\<close>

definition blank :: "config \<Rightarrow> ('v, 'p, 'o, 'r) env" where
  "blank cfg =
     \<lparr>sensor_angles = sensor_fan cfg, vessel = None, path = None, obstacles = [],
      ext = \<lparr>nearby_obstacles = [], look_ahead_point = None,
             look_ahead_arclength = None, past_errors = empty_errors\<rparr>,
      np_random = None, cumulative_reward = 0, past_rewards = [], max_path_prog = 0,
      target_arclength = 0, path_prog = None, past_actions = [], past_obs = None,
      t_step = 0, total_t_steps = 0, episode = 0, memory = None\<rparr>"

definition construct ::
  "config \<Rightarrow> ('v, 'p, 'o, 'r) scenario
     \<Rightarrow> error + (('v, 'p, 'o, 'r) env \<times> (real list \<times> real list) \<times> (real list \<times> real list))" where
  "construct cfg k =
     (case reset cfg k (blank cfg) of
        (Inl e, s) \<Rightarrow> Inl e
      | (Inr ob, s) \<Rightarrow>
          (case observation_space cfg of
             Inl e \<Rightarrow> Inl e
           | Inr sp \<Rightarrow> Inr (s, action_space, sp)))"

subsection \<open>Sequences of calls\<close>

text \<open>
  \<open>steps\<close> issues one call of \<open>step\<close> per action and goes on whatever the outcome, as a
  caller that catches exceptions can. \<open>run\<close> stops at the first exception and collects
  the values returned until then.
\<close>

fun steps ::
  "config \<Rightarrow> ('v, 'p, 'o, 'r) scenario \<Rightarrow> action list \<Rightarrow> ('v, 'p, 'o, 'r) env
     \<Rightarrow> ('v, 'p, 'o, 'r) env" where
  "steps cfg k [] s = s"
| "steps cfg k (a # as) s = steps cfg k as (snd (step cfg k a s))"

fun run ::
  "config \<Rightarrow> ('v, 'p, 'o, 'r) scenario \<Rightarrow> action list \<Rightarrow> ('v, 'p, 'o, 'r) env
     \<Rightarrow> (error + (obs \<times> real \<times> bool \<times> info) list) \<times> ('v, 'p, 'o, 'r) env" where
  "run cfg k [] s = (Inr [], s)"
| "run cfg k (a # as) s =
     (case step cfg k a s of
        (Inl e, s') \<Rightarrow> (Inl e, s')
      | (Inr out, s') \<Rightarrow>
          (case run cfg k as s' of
             (Inl e, s'') \<Rightarrow> (Inl e, s'')
           | (Inr outs, s'') \<Rightarrow> (Inr (out # outs), s'')))"

subsection \<open>A concrete scenario\<close>

text \<open>
  A scenario small enough to evaluate: the path is the segment from \<open>(0, 0)\<close> to
  \<open>(L, 0)\<close>, the vessel is its north coordinate and moves north by the propeller command
  at speed 1 with course 0, the observation is the vector \<open>ob0\<close> as long as
  \<open>max_path_prog\<close> is 0 and the vector \<open>ob1\<close> once progress has been made, the reward
  is 1 and the shaper never ends the episode. The path hands out numpy scalars. The
  random generator is a counter.
\<close>

definition straight :: "real \<Rightarrow> obs \<Rightarrow> obs \<Rightarrow> (real, real, unit, nat) scenario" where
  "straight L ob0 ob1 =
     \<lparr>vessel_step = (\<lambda>a v. v + fst a),
      position = (\<lambda>v. (v, 0)),
      course = (\<lambda>v. 0),
      speed = (\<lambda>v. 1),
      path_taken = (\<lambda>v. [(v, 0)]),
      path_at = (\<lambda>p x. (x, 0)),
      s_max = (\<lambda>p. p),
      path_length = (\<lambda>p. p),
      get_closest_point_distance = (\<lambda>p pt. (\<bar>snd pt\<bar>, (fst pt, 0), min (max 0 (fst pt)) p)),
      get_direction = (\<lambda>p x. 0),
      princip = (\<lambda>x. x),
      numpy_scalars = True,
      fresh_np_random = 0,
      generate = (\<lambda>r. ((L, 0, []), Suc r)),
      observe = (\<lambda>s. (if 0 < max_path_prog s then ob1 else ob0, ext s)),
      step_reward = (\<lambda>s. ((False, 1, Map.empty), ext s))\<rparr>"

text \<open>
  Two configurations: \<open>near_cfg\<close> trusts the closest point whenever the vessel is within
  distance 1 of the path, \<open>far_cfg\<close> never does (both thresholds are 0).
\<close>

definition near_cfg :: config where
  "near_cfg =
     \<lparr>n_sectors = 2, n_sensors_per_sector = 3, t_step_size = 1, min_la_dist = 1,
      max_closest_point_distance = 1, max_closest_point_heading_error = 1,
      max_timestemps = 1\<rparr>"

definition far_cfg :: config where
  "far_cfg =
     \<lparr>n_sectors = 2, n_sensors_per_sector = 3, t_step_size = 1, min_la_dist = 1,
      max_closest_point_distance = 0, max_closest_point_heading_error = 0,
      max_timestemps = 1\<rparr>"


text \<open>The state of the concrete scenario after construction has called \<open>reset\<close>.\<close>

definition start :: "config \<Rightarrow> real \<Rightarrow> obs \<Rightarrow> obs \<Rightarrow> (real, real, unit, nat) env" where
  "start cfg L ob0 ob1 = snd (reset cfg (straight L ob0 ob1) (blank cfg))"


text \<open>The same scenario with a path that hands out plain Python numbers.\<close>

definition plain :: "real \<Rightarrow> obs \<Rightarrow> obs \<Rightarrow> (real, real, unit, nat) scenario" where
  "plain L ob0 ob1 = (straight L ob0 ob1)\<lparr>numpy_scalars := False\<rparr>"



definition returned_info ::
  "error + (obs \<times> real \<times> bool \<times> info) \<Rightarrow> string \<Rightarrow> pyfloat option" where
  "returned_info r key = (case r of Inl e \<Rightarrow> None | Inr out \<Rightarrow> snd (snd (snd out)) key)"


definition returned_obs :: "error + (obs \<times> real \<times> bool \<times> info) \<Rightarrow> obs option" where
  "returned_obs r = (case r of Inl e \<Rightarrow> None | Inr out \<Rightarrow> Some (fst out))"

text \<open>
  The bounds on the look-ahead target on a path of length \<open>L\<close>: within \<open>[0, L]\<close> and at
  least \<open>max_path_prog + min_la_dist\<close>, unless that sum exceeds \<open>L\<close>, and then equal to \<open>L\<close>.
\<close>

definition target_ok :: "config \<Rightarrow> real \<Rightarrow> ('v, 'p, 'o, 'r) env \<Rightarrow> bool" where
  "target_ok cfg L s =
     (0 \<le> target_arclength s \<and> target_arclength s \<le> L
      \<and> (if L < max_path_prog s + min_la_dist cfg
         then target_arclength s = L
         else max_path_prog s + min_la_dist cfg \<le> target_arclength s))"

text \<open>The declared interval of the observation slot \<open>i\<close>, if the space has such a slot.\<close>

definition obs_bounds_at :: "config \<Rightarrow> nat \<Rightarrow> (real \<times> real) option" where
  "obs_bounds_at cfg i =
     (case observation_space cfg of
        Inl e \<Rightarrow> None
      | Inr (low_obs, high_obs) \<Rightarrow>
          if i < length low_obs \<and> i < length high_obs
          then Some (low_obs ! i, high_obs ! i) else None)"

section \<open>Properties\<close>

subsection \<open>What each phase writes\<close>

lemma track_past_actions: "past_actions (snd (track cfg k a s)) = past_actions s @ [a]"
  by (simp add: track_def Let_def split: option.splits)

lemma track_mpp_mono: "max_path_prog s \<le> max_path_prog (snd (track cfg k a s))"
  by (simp add: track_def Let_def split: option.splits)

lemma track_frame:
  "sensor_angles (snd (track cfg k a s)) = sensor_angles s"
  "path (snd (track cfg k a s)) = path s"
  "ext (snd (track cfg k a s)) = ext s"
  "past_obs (snd (track cfg k a s)) = past_obs s"
  "t_step (snd (track cfg k a s)) = t_step s"
  by (simp_all add: track_def Let_def split: option.splits)

lemma track_Some:
  fixes cfg :: config and k :: "('v, 'p, 'o, 'r) scenario" and a :: action
    and s :: "('v, 'p, 'o, 'r) env"
  assumes "vessel s = Some v0" and "path s = Some p"
  defines "prog \<equiv> progress cfg k p (vessel_step k a v0) (max_path_prog s)"
  shows "fst (track cfg k a s) = Inr prog"
    and "vessel (snd (track cfg k a s)) = Some (vessel_step k a v0)"
    and "max_path_prog (snd (track cfg k a s)) = max (max_path_prog s) prog"
    and "path_prog (snd (track cfg k a s)) = Some (np_append (path_prog s) prog)"
    and "target_arclength (snd (track cfg k a s)) =
           min (case look_ahead_arclength (ext s) of
                  None \<Rightarrow> max (max_path_prog s) prog + min_la_dist cfg
                | Some la \<Rightarrow> max la (max (max_path_prog s) prog + min_la_dist cfg))
               (path_length k p)"
  using assms by (simp_all add: track_def Let_def max_def split: option.splits)

lemma step_frame:
  "sensor_angles (snd (step cfg k a s)) = sensor_angles (snd (track cfg k a s))"
  "vessel (snd (step cfg k a s)) = vessel (snd (track cfg k a s))"
  "path (snd (step cfg k a s)) = path (snd (track cfg k a s))"
  "max_path_prog (snd (step cfg k a s)) = max_path_prog (snd (track cfg k a s))"
  "target_arclength (snd (step cfg k a s)) = target_arclength (snd (track cfg k a s))"
  "path_prog (snd (step cfg k a s)) = path_prog (snd (track cfg k a s))"
  "past_actions (snd (step cfg k a s)) = past_actions (snd (track cfg k a s))"
  by (simp_all add: step_def Let_def split: prod.splits sum.splits option.splits)

lemma reset_fields:
  assumes "t_step s \<le> 0 \<or> (vessel s \<noteq> None \<and> path s \<noteq> None)"
  shows "max_path_prog (snd (reset cfg k s)) = 0"
    and "target_arclength (snd (reset cfg k s)) = 0"
    and "past_actions (snd (reset cfg k s)) = [(0, 0)]"
    and "t_step (snd (reset cfg k s)) = 0"
    and "path_prog (snd (reset cfg k s)) = None"
    and "vessel (snd (reset cfg k s)) =
           Some (fst (snd (fst (generate k
             (case np_random s of None \<Rightarrow> fresh_np_random k | Some r \<Rightarrow> r)))))"
    and "path (snd (reset cfg k s)) =
           Some (fst (fst (generate k
             (case np_random s of None \<Rightarrow> fresh_np_random k | Some r \<Rightarrow> r))))"
  using assms
  by (auto simp add: reset_def regenerate_def Let_def
        split: prod.splits sum.splits option.splits if_splits)

lemma start_fields:
  "vessel (start cfg L ob0 ob1) = Some 0"
  "path (start cfg L ob0 ob1) = Some L"
  "max_path_prog (start cfg L ob0 ob1) = 0"
  "target_arclength (start cfg L ob0 ob1) = 0"
  "path_prog (start cfg L ob0 ob1) = None"
  "past_actions (start cfg L ob0 ob1) = [(0, 0)]"
  "t_step (start cfg L ob0 ob1) = 0"
  "look_ahead_arclength (ext (start cfg L ob0 ob1)) = None"
  "past_obs (start cfg L ob0 ob1) = (if list_ex isnan ob0 then None else Some [ob0])"
  by (simp_all add: start_def reset_def regenerate_def blank_def straight_def Let_def)

subsection \<open>The progress value\<close>

text \<open>
  Claim C1. In every call of \<open>step\<close> on a state that has a vessel and a path, the value
  appended to \<open>path_prog\<close> is chosen by the dual-criterion switch: the closest-point
  arclength if the closest-point distance is below \<open>max_closest_point_distance\<close> or the
  absolute wrapped closest-point heading error is below
  \<open>max_closest_point_heading_error\<close>; otherwise the previous \<open>max_path_prog\<close> plus
  \<open>cos(course_path_angle) * speed * t_step_size\<close>, clamped by \<open>min(max(0, .), path.length)\<close>.
  All vessel readings are taken after the vessel has moved.
\<close>

theorem progress_dual_criterion:
  fixes cfg :: config and k :: "('v, 'p, 'o, 'r) scenario" and a :: action
    and s :: "('v, 'p, 'o, 'r) env"
  assumes "vessel s = Some v0" and "path s = Some p"
    and "get_closest_point_distance k p (position k (vessel_step k a v0)) = (d, cp, ca)"
  shows "path_prog (snd (step cfg k a s)) =
           Some (np_append (path_prog s)
             (if d < max_closest_point_distance cfg
                 \<or> \<bar>princip k (get_direction k p ca - course k (vessel_step k a v0))\<bar>
                     < max_closest_point_heading_error cfg
              then ca
              else min (max 0 (max_path_prog s
                                + cos (princip k (get_direction k p (max_path_prog s)
                                                   - course k (vessel_step k a v0)))
                                  * speed k (vessel_step k a v0) * t_step_size cfg))
                       (path_length k p)))"
  using assms by (simp add: step_frame track_Some progress_def Let_def)

text \<open>
  With both thresholds at 0 the vessel that has moved to arclength 2 is credited the
  forward projection 1, not the closest-point arclength 2.
\<close>

theorem progress_dual_criterion_witness:
  "vessel (start far_cfg 10 [Finite 0] [Finite 1]) = Some 0
   \<and> path (start far_cfg 10 [Finite 0] [Finite 1]) = Some 10
   \<and> get_closest_point_distance (straight 10 [Finite 0] [Finite 1]) 10
        (position (straight 10 [Finite 0] [Finite 1])
           (vessel_step (straight 10 [Finite 0] [Finite 1]) (2, 0) 0))
       = (0, (2, 0), 2)
   \<and> path_prog (snd (step far_cfg (straight 10 [Finite 0] [Finite 1]) (2, 0)
                        (start far_cfg 10 [Finite 0] [Finite 1])))
       = Some [None, Some 1]"
  using progress_dual_criterion [of "start far_cfg 10 [Finite 0] [Finite 1]" 0 10
      "straight 10 [Finite 0] [Finite 1]" "(2, 0)" 0 "(2, 0)" 2 far_cfg]
  by (simp add: start_fields straight_def far_cfg_def np_append_def)

subsection \<open>Concrete evaluations\<close>

lemma first_step:
  "fst (step far_cfg (straight 10 [Finite 0] ob1) (2, 0) (start far_cfg 10 [Finite 0] ob1))
     = (if list_ex isnan ob1 then Inl (AssertionError ob1)
        else if length ob1 = 1 then Inr (ob1, 1, False, [''progress'' \<mapsto> Finite (1 / 10)])
        else Inl ValueError)"
  "max_path_prog (snd (step far_cfg (straight 10 [Finite 0] ob1) (2, 0) (start far_cfg 10 [Finite 0] ob1))) = 1"
  "target_arclength (snd (step far_cfg (straight 10 [Finite 0] ob1) (2, 0) (start far_cfg 10 [Finite 0] ob1))) = 2"
  "vessel (snd (step far_cfg (straight 10 [Finite 0] ob1) (2, 0) (start far_cfg 10 [Finite 0] ob1))) = Some 2"
  "path (snd (step far_cfg (straight 10 [Finite 0] ob1) (2, 0) (start far_cfg 10 [Finite 0] ob1))) = Some 10"
  "past_actions (snd (step far_cfg (straight 10 [Finite 0] ob1) (2, 0) (start far_cfg 10 [Finite 0] ob1))) = [(0, 0), (2, 0)]"
  "path_prog (snd (step far_cfg (straight 10 [Finite 0] ob1) (2, 0) (start far_cfg 10 [Finite 0] ob1))) = Some [None, Some 1]"
  "t_step (snd (step far_cfg (straight 10 [Finite 0] ob1) (2, 0) (start far_cfg 10 [Finite 0] ob1)))
     = (if list_ex isnan ob1 \<or> length ob1 \<noteq> 1 then 0 else 1)"
  by (simp_all add: step_def truediv_def track_def progress_def vstack_obs_def isnan_def start_fields
        straight_def far_cfg_def np_append_def Let_def)


lemma first_run:
  "run far_cfg (straight 10 [Finite 0] [Finite 1]) [(2, 0)] (start far_cfg 10 [Finite 0] [Finite 1])
     = (Inr [([Finite 1], 1, False, [''progress'' \<mapsto> Finite (1 / 10)])],
        snd (step far_cfg (straight 10 [Finite 0] [Finite 1]) (2, 0)
               (start far_cfg 10 [Finite 0] [Finite 1])))"
proof -
  have "fst (step far_cfg (straight 10 [Finite 0] [Finite 1]) (2, 0)
               (start far_cfg 10 [Finite 0] [Finite 1]))
          = Inr ([Finite 1], 1, False, [''progress'' \<mapsto> Finite (1 / 10)])"
    by (simp add: first_step isnan_def)
  then show ?thesis
    by (cases "step far_cfg (straight 10 [Finite 0] [Finite 1]) (2, 0)
               (start far_cfg 10 [Finite 0] [Finite 1])") simp
qed

subsection \<open>Monotone progress\<close>

lemma step_mpp_mono: "max_path_prog s \<le> max_path_prog (snd (step cfg k a s))"
  by (simp add: step_frame track_mpp_mono)

lemma steps_mpp_mono: "max_path_prog s \<le> max_path_prog (steps cfg k as s)"
proof (induction as arbitrary: s)
  case Nil
  show ?case by simp
next
  case (Cons a as)
  have "max_path_prog s \<le> max_path_prog (snd (step cfg k a s))"
    by (rule step_mpp_mono)
  also have "\<dots> \<le> max_path_prog (steps cfg k as (snd (step cfg k a s)))"
    by (rule Cons.IH)
  finally show ?case by simp
qed

text \<open>
  Claim C2. Within an episode \<open>max_path_prog\<close> never decreases: its value after a call
  of \<open>step\<close> is at least its value before, whatever the outcome of the call, hence the
  same across any sequence of calls; and \<open>reset\<close> sets it to 0. The hypothesis is what
  \<open>reset\<close> needs for its snapshot of the previous episode: the environment has a vessel
  and a path once it has stepped.
\<close>

theorem max_path_prog_monotone:
  assumes "t_step s \<le> 0 \<or> (vessel s \<noteq> None \<and> path s \<noteq> None)"
  shows "max_path_prog s \<le> max_path_prog (snd (step cfg k a s))
         \<and> max_path_prog s \<le> max_path_prog (steps cfg k as s)
         \<and> max_path_prog (snd (reset cfg k s)) = 0"
  using assms by (simp add: step_mpp_mono steps_mpp_mono reset_fields)

theorem max_path_prog_monotone_witness:
  "(t_step (snd (step far_cfg (straight 10 [Finite 0] [Finite 1]) (2, 0)
                  (start far_cfg 10 [Finite 0] [Finite 1]))) \<le> 0
    \<or> (vessel (snd (step far_cfg (straight 10 [Finite 0] [Finite 1]) (2, 0)
                      (start far_cfg 10 [Finite 0] [Finite 1]))) \<noteq> None
       \<and> path (snd (step far_cfg (straight 10 [Finite 0] [Finite 1]) (2, 0)
                      (start far_cfg 10 [Finite 0] [Finite 1]))) \<noteq> None))
   \<and> 1 \<le> max_path_prog (snd (step far_cfg (straight 10 [Finite 0] [Finite 1]) (2, 0)
             (snd (step far_cfg (straight 10 [Finite 0] [Finite 1]) (2, 0)
                (start far_cfg 10 [Finite 0] [Finite 1])))))
   \<and> max_path_prog (snd (reset far_cfg (straight 10 [Finite 0] [Finite 1])
          (snd (step far_cfg (straight 10 [Finite 0] [Finite 1]) (2, 0)
             (start far_cfg 10 [Finite 0] [Finite 1]))))) = 0"
  using max_path_prog_monotone [of "snd (step far_cfg (straight 10 [Finite 0] [Finite 1]) (2, 0)
      (start far_cfg 10 [Finite 0] [Finite 1]))" far_cfg "straight 10 [Finite 0] [Finite 1]"
      "(2, 0)" "[]"]
  by (simp add: first_step)

subsection \<open>The history of actions\<close>

lemma steps_past_actions: "past_actions (steps cfg k as s) = past_actions s @ as"
  by (induction as arbitrary: s) (simp_all add: step_frame track_past_actions)

lemma step_Inr_t_step:
  assumes "step cfg k a s = (Inr out, s')"
  shows "t_step s' = t_step s + 1"
proof -
  have "t_step (snd (track cfg k a s)) = t_step s" by (rule track_frame)
  with assms show ?thesis
    by (auto simp add: step_def Let_def split: prod.splits sum.splits option.splits if_splits)
qed

lemma run_Inr:
  "run cfg k as s = (Inr outs, s') \<Longrightarrow>
     steps cfg k as s = s' \<and> t_step s' = t_step s + int (length as)"
proof (induction as arbitrary: s outs)
  case Nil
  then show ?case by simp
next
  case (Cons a as)
  from Cons.prems obtain out s1 outs1 where
    st: "step cfg k a s = (Inr out, s1)" and r: "run cfg k as s1 = (Inr outs1, s')"
    by (auto split: prod.splits sum.splits)
  from Cons.IH [OF r] step_Inr_t_step [OF st] st show ?case by auto
qed

text \<open>
  Claim C9. Right after \<open>reset\<close> the history \<open>past_actions\<close> is the single fabricated row
  \<open>[0, 0]\<close>; every call of \<open>step\<close> appends exactly one row, the action; so after any
  sequence of calls the history is \<open>[0, 0]\<close> followed by the actions, and when all the
  calls have returned, \<open>t_step\<close> is their number and the history has \<open>t_step + 1\<close> rows
  of which the first is \<open>[0, 0]\<close>.
\<close>

theorem past_actions_history:
  assumes "t_step s \<le> 0 \<or> (vessel s \<noteq> None \<and> path s \<noteq> None)"
  shows "past_actions (snd (reset cfg k s)) = [(0, 0)]
         \<and> past_actions (snd (step cfg k a s1)) = past_actions s1 @ [a]
         \<and> past_actions (steps cfg k as (snd (reset cfg k s))) = (0, 0) # as
         \<and> (\<forall>outs s2. run cfg k as (snd (reset cfg k s)) = (Inr outs, s2) \<longrightarrow>
               t_step s2 = int (length as)
               \<and> int (length (past_actions s2)) = t_step s2 + 1
               \<and> hd (past_actions s2) = (0, 0))"
proof -
  have r: "past_actions (snd (reset cfg k s)) = [(0, 0)]" "t_step (snd (reset cfg k s)) = 0"
    using assms by (simp_all add: reset_fields)
  have "t_step s2 = int (length as) \<and> int (length (past_actions s2)) = t_step s2 + 1
        \<and> hd (past_actions s2) = (0, 0)"
    if "run cfg k as (snd (reset cfg k s)) = (Inr outs, s2)" for outs s2
    using run_Inr [OF that] r steps_past_actions [of cfg k as "snd (reset cfg k s)"] by auto
  then show ?thesis
    using r by (simp add: steps_past_actions step_frame track_past_actions)
qed

theorem past_actions_history_witness:
  "t_step (blank far_cfg :: (real, real, unit, nat) env) \<le> 0
   \<and> run far_cfg (straight 10 [Finite 0] [Finite 1]) [(2, 0)]
         (start far_cfg 10 [Finite 0] [Finite 1])
       = (Inr [([Finite 1], 1, False, [''progress'' \<mapsto> Finite (1 / 10)])],
          snd (step far_cfg (straight 10 [Finite 0] [Finite 1]) (2, 0)
                 (start far_cfg 10 [Finite 0] [Finite 1])))
   \<and> t_step (snd (step far_cfg (straight 10 [Finite 0] [Finite 1]) (2, 0)
                 (start far_cfg 10 [Finite 0] [Finite 1]))) = 1
   \<and> int (length (past_actions (snd (step far_cfg (straight 10 [Finite 0] [Finite 1]) (2, 0)
                 (start far_cfg 10 [Finite 0] [Finite 1]))))) = 1 + 1
   \<and> hd (past_actions (snd (step far_cfg (straight 10 [Finite 0] [Finite 1]) (2, 0)
                 (start far_cfg 10 [Finite 0] [Finite 1])))) = (0, 0)"
proof -
  have h: "t_step (blank far_cfg :: (real, real, unit, nat) env) \<le> 0
           \<or> (vessel (blank far_cfg :: (real, real, unit, nat) env) \<noteq> None
              \<and> path (blank far_cfg :: (real, real, unit, nat) env) \<noteq> None)"
    by (simp add: blank_def)
  note th = past_actions_history [OF h, of far_cfg "straight 10 [Finite 0] [Finite 1]"
      "(2, 0)" "start far_cfg 10 [Finite 0] [Finite 1]" "[(2, 0)]", folded start_def]
  have b: "t_step (blank far_cfg :: (real, real, unit, nat) env) \<le> 0"
    by (simp add: blank_def)
  from th b show ?thesis
    by (simp del: run.simps add: first_run)
qed

subsection \<open>Aborted steps\<close>

lemma list_ex_isnan: "list_ex isnan ob = (NaN \<in> set ob)"
  by (auto simp add: list_ex_iff isnan_def)

lemma track_error:
  assumes "track cfg k a s = (Inl e, s')"
  shows "e = AttributeError"
  using assms by (auto simp add: track_def Let_def split: option.splits)


lemma step_AssertionError:
  assumes "step cfg k a s = (Inl (AssertionError ob), s')"
  shows "\<exists>prog s5 x. track cfg k a s = (Inr prog, s5) \<and> observe k s5 = (ob, x)
           \<and> list_ex isnan ob \<and> s' = s5\<lparr>ext := x\<rparr>"
proof (cases "track cfg k a s")
  case (Pair r s5)
  show ?thesis
  proof (cases r)
    case (Inl e)
    with Pair assms track_error [of cfg k a s e s5] show ?thesis
      by (simp add: step_def)
  next
    case (Inr prog)
    with Pair assms show ?thesis
      by (auto simp add: step_def truediv_def Let_def vstack_obs_def
            split: prod.splits sum.splits option.splits if_splits)
  qed
qed




subsection \<open>The validity check of the observation\<close>

lemma step_Inr_valid:
  assumes "step cfg k a s = (Inr (ob, r, d, i), s')"
  shows "\<not> list_ex isnan ob"
  using assms
  by (auto simp add: step_def Let_def split: prod.splits sum.splits option.splits if_splits)

lemma step_nan_aborts:
  assumes "track cfg k a s = (Inr prog, s5)" and "observe k s5 = (ob, x)" and "list_ex isnan ob"
  shows "step cfg k a s = (Inl (AssertionError ob), s5\<lparr>ext := x\<rparr>)"
  using assms by (simp add: step_def Let_def)

lemma reset_Inr_valid:
  assumes "reset cfg k s = (Inr ob, s')"
  shows "\<not> list_ex isnan ob"
  using assms
  by (auto simp add: reset_def Let_def split: prod.splits sum.splits if_splits)

lemma regenerate_error:
  assumes "regenerate cfg k s = (Inl e, s')"
  shows "e = AttributeError"
  using assms
  by (auto simp add: regenerate_def Let_def split: prod.splits option.splits if_splits)

lemma reset_AssertionError:
  assumes "reset cfg k s = (Inl (AssertionError ob), s')"
  shows "list_ex isnan ob"
proof (cases "regenerate cfg k s")
  case (Pair r s3)
  show ?thesis
  proof (cases r)
    case (Inl e)
    with Pair assms regenerate_error [of cfg k s e s3] show ?thesis
      by (simp add: reset_def)
  next
    case (Inr u)
    with Pair assms show ?thesis
      by (auto simp add: reset_def Let_def split: prod.splits if_splits)
  qed
qed

lemma reset_nan_aborts:
  assumes "regenerate cfg k s = (Inr u, s3)" and "observe k s3 = (ob, x)" and "list_ex isnan ob"
  shows "reset cfg k s = (Inl (AssertionError ob), s3\<lparr>ext := x\<rparr>)"
  using assms by (simp add: reset_def Let_def)

text \<open>
  Claim C4, as the code has it. The check is \<open>np.isnan\<close>: in \<open>step\<close> and in \<open>reset\<close>, an
  observation with a NaN entry aborts the call with an \<open>AssertionError\<close> that carries
  the vector, no call returns an observation with a NaN entry, and an \<open>AssertionError\<close>
  is raised for no other reason. Infinite entries are not looked at.
\<close>

theorem nan_observation_rejected:
  fixes cfg :: config and k :: "('v, 'p, 'o, 'r) scenario" and a :: action
    and s :: "('v, 'p, 'o, 'r) env"
  shows "(\<forall>prog s5 ob x.
            track cfg k a s = (Inr prog, s5) \<and> observe k s5 = (ob, x) \<and> NaN \<in> set ob
              \<longrightarrow> step cfg k a s = (Inl (AssertionError ob), s5\<lparr>ext := x\<rparr>))
         \<and> (\<forall>ob r d i s'. step cfg k a s = (Inr (ob, r, d, i), s') \<longrightarrow> NaN \<notin> set ob)
         \<and> (\<forall>ob s'. step cfg k a s = (Inl (AssertionError ob), s') \<longrightarrow> NaN \<in> set ob)
         \<and> (\<forall>u s3 ob x.
               regenerate cfg k s = (Inr u, s3) \<and> observe k s3 = (ob, x) \<and> NaN \<in> set ob
                 \<longrightarrow> reset cfg k s = (Inl (AssertionError ob), s3\<lparr>ext := x\<rparr>))
         \<and> (\<forall>ob s'. reset cfg k s = (Inr ob, s') \<longrightarrow> NaN \<notin> set ob)
         \<and> (\<forall>ob s'. reset cfg k s = (Inl (AssertionError ob), s') \<longrightarrow> NaN \<in> set ob)"
proof (intro conjI allI impI)
  fix prog s5 ob x
  assume "track cfg k a s = (Inr prog, s5) \<and> observe k s5 = (ob, x) \<and> NaN \<in> set ob"
  then show "step cfg k a s = (Inl (AssertionError ob), s5\<lparr>ext := x\<rparr>)"
    by (simp add: step_nan_aborts list_ex_isnan)
next
  fix ob r d i s'
  assume "step cfg k a s = (Inr (ob, r, d, i), s')"
  from step_Inr_valid [OF this] show "NaN \<notin> set ob"
    by (simp add: list_ex_isnan)
next
  fix ob s'
  assume "step cfg k a s = (Inl (AssertionError ob), s')"
  from step_AssertionError [OF this] show "NaN \<in> set ob"
    by (auto simp add: list_ex_isnan)
next
  fix u s3 ob x
  assume "regenerate cfg k s = (Inr u, s3) \<and> observe k s3 = (ob, x) \<and> NaN \<in> set ob"
  then show "reset cfg k s = (Inl (AssertionError ob), s3\<lparr>ext := x\<rparr>)"
    by (simp add: reset_nan_aborts list_ex_isnan)
next
  fix ob s'
  assume "reset cfg k s = (Inr ob, s')"
  from reset_Inr_valid [OF this] show "NaN \<notin> set ob"
    by (simp add: list_ex_isnan)
next
  fix ob s'
  assume "reset cfg k s = (Inl (AssertionError ob), s')"
  from reset_AssertionError [OF this] show "NaN \<in> set ob"
    by (simp add: list_ex_isnan)
qed



lemma first_track:
  "fst (track far_cfg (straight 10 [Finite 0] ob1) (2, 0) (start far_cfg 10 [Finite 0] ob1)) = Inr 1"
  "observe (straight 10 [Finite 0] ob1)
     (snd (track far_cfg (straight 10 [Finite 0] ob1) (2, 0) (start far_cfg 10 [Finite 0] ob1)))
   = (ob1, ext (start far_cfg 10 [Finite 0] ob1))"
  by (simp_all add: track_def progress_def start_fields straight_def far_cfg_def Let_def)

theorem nan_observation_rejected_witness:
  "track far_cfg (straight 10 [Finite 0] [NaN]) (2, 0) (start far_cfg 10 [Finite 0] [NaN])
     = (Inr 1, snd (track far_cfg (straight 10 [Finite 0] [NaN]) (2, 0)
                      (start far_cfg 10 [Finite 0] [NaN])))
   \<and> observe (straight 10 [Finite 0] [NaN])
        (snd (track far_cfg (straight 10 [Finite 0] [NaN]) (2, 0)
                (start far_cfg 10 [Finite 0] [NaN])))
       = ([NaN], ext (start far_cfg 10 [Finite 0] [NaN]))
   \<and> NaN \<in> set [NaN]
   \<and> fst (step far_cfg (straight 10 [Finite 0] [NaN]) (2, 0) (start far_cfg 10 [Finite 0] [NaN]))
       = Inl (AssertionError [NaN])"
proof -
  have tr: "track far_cfg (straight 10 [Finite 0] [NaN]) (2, 0) (start far_cfg 10 [Finite 0] [NaN])
     = (Inr 1, snd (track far_cfg (straight 10 [Finite 0] [NaN]) (2, 0)
                      (start far_cfg 10 [Finite 0] [NaN])))"
    using first_track(1) [of "[NaN]"]
    by (cases "track far_cfg (straight 10 [Finite 0] [NaN]) (2, 0)
                 (start far_cfg 10 [Finite 0] [NaN])") simp
  note ob = first_track(2) [of "[NaN]"]
  have hyp: "track far_cfg (straight 10 [Finite 0] [NaN]) (2, 0) (start far_cfg 10 [Finite 0] [NaN])
     = (Inr 1, snd (track far_cfg (straight 10 [Finite 0] [NaN]) (2, 0)
                      (start far_cfg 10 [Finite 0] [NaN])))
   \<and> observe (straight 10 [Finite 0] [NaN])
        (snd (track far_cfg (straight 10 [Finite 0] [NaN]) (2, 0)
                (start far_cfg 10 [Finite 0] [NaN])))
       = ([NaN], ext (start far_cfg 10 [Finite 0] [NaN]))
   \<and> NaN \<in> set [NaN]"
    using tr ob by simp
  note th = nan_observation_rejected [of far_cfg "straight 10 [Finite 0] [NaN]" "(2, 0)"
      "start far_cfg 10 [Finite 0] [NaN]", THEN conjunct1, rule_format, OF hyp]
  from th hyp show ?thesis
    by simp
qed


lemma first_step_inf:
  "fst (step far_cfg (straight 10 [Finite 0] [PosInf]) (2, 0) (start far_cfg 10 [Finite 0] [PosInf]))
     = Inr ([PosInf], 1, False, [''progress'' \<mapsto> Finite (1 / 10)])"
  using first_step(1) [of "[PosInf]"] by (simp add: isnan_def)

text \<open>
  Claim C4 as stated fails for infinities: \<open>step\<close> returns an observation whose entry
  is \<open>+inf\<close>.
\<close>

theorem infinite_observation_returned:
  "returned_obs (fst (step far_cfg (straight 10 [Finite 0] [PosInf]) (2, 0)
                        (start far_cfg 10 [Finite 0] [PosInf]))) = Some [PosInf]
   \<and> \<not> list_all isfinite [PosInf]"
  by (simp only: first_step_inf) (simp add: returned_obs_def isfinite_def)

subsection \<open>The step budget\<close>





lemma reset_cong:
  assumes "path_at k' = path_at k" and "s_max k' = s_max k" and "path_taken k' = path_taken k"
    and "fresh_np_random k' = fresh_np_random k" and "generate k' = generate k"
    and "observe k' = observe k"
  shows "reset cfg k' s = reset cfg k s"
  unfolding reset_def regenerate_def assms by (rule refl)




subsection \<open>The look-ahead target\<close>

lemma step_target_ok:
  fixes cfg :: config and k :: "('v, 'p, 'o, 'r) scenario" and a :: action
    and s :: "('v, 'p, 'o, 'r) env"
  assumes v: "vessel s = Some v0" and p: "path s = Some p" and m: "0 \<le> max_path_prog s"
    and d: "0 \<le> min_la_dist cfg" and l: "0 \<le> path_length k p"
  shows "target_ok cfg (path_length k p) (snd (step cfg k a s))"
    and "vessel (snd (step cfg k a s)) = Some (vessel_step k a v0)"
    and "path (snd (step cfg k a s)) = Some p"
    and "0 \<le> max_path_prog (snd (step cfg k a s))"
proof -
  show "target_ok cfg (path_length k p) (snd (step cfg k a s))"
    using m d l
    by (auto simp add: target_ok_def step_frame track_Some [OF v p] split: option.splits)
  show "vessel (snd (step cfg k a s)) = Some (vessel_step k a v0)"
    by (simp add: step_frame track_Some [OF v p])
  show "path (snd (step cfg k a s)) = Some p"
    by (simp add: step_frame track_frame p)
  show "0 \<le> max_path_prog (snd (step cfg k a s))"
    using m step_mpp_mono [of s cfg k a] by simp
qed

lemma steps_target_ok:
  fixes cfg :: config and k :: "('v, 'p, 'o, 'r) scenario"
    and s :: "('v, 'p, 'o, 'r) env"
  assumes "vessel s \<noteq> None" and "path s = Some p" and "0 \<le> max_path_prog s"
    and "0 \<le> min_la_dist cfg" and "0 \<le> path_length k p" and "as \<noteq> []"
  shows "target_ok cfg (path_length k p) (steps cfg k as s)"
  using assms
proof (induction as arbitrary: s)
  case Nil
  then show ?case by simp
next
  case (Cons a as)
  from Cons.prems(1) obtain v0 where v: "vessel s = Some v0"
    by auto
  note st = step_target_ok [OF v Cons.prems(2) Cons.prems(3) Cons.prems(4) Cons.prems(5), of a]
  show ?case
  proof (cases "as = []")
    case True
    with st(1) show ?thesis by simp
  next
    case False
    have "target_ok cfg (path_length k p) (steps cfg k as (snd (step cfg k a s)))"
      using st(2) by (intro Cons.IH st(3) st(4) Cons.prems(4) Cons.prems(5) False) simp
    then show ?thesis by simp
  qed
qed

text \<open>
  Claim C3, as the code has it. \<open>reset\<close> sets \<open>target_arclength\<close> to 0. After every call
  of \<open>step\<close> that follows (whatever its outcome), with \<open>min_la_dist \<ge> 0\<close> and
  \<open>path.length \<ge> 0\<close>, \<open>target_arclength\<close> lies within \<open>[0, path.length]\<close> and is at least
  \<open>max_path_prog + min_la_dist\<close>, except when that sum exceeds \<open>path.length\<close>, in which
  case it equals \<open>path.length\<close>.
\<close>

theorem target_arclength_after_step:
  fixes cfg :: config and k :: "('v, 'p, 'o, 'r) scenario"
    and s :: "('v, 'p, 'o, 'r) env"
  assumes "t_step s \<le> 0 \<or> (vessel s \<noteq> None \<and> path s \<noteq> None)"
    and "path (snd (reset cfg k s)) = Some p"
    and "0 \<le> min_la_dist cfg" and "0 \<le> path_length k p"
  shows "target_arclength (snd (reset cfg k s)) = 0
         \<and> (as \<noteq> [] \<longrightarrow> target_ok cfg (path_length k p) (steps cfg k as (snd (reset cfg k s))))"
proof -
  have "vessel (snd (reset cfg k s)) \<noteq> None" "max_path_prog (snd (reset cfg k s)) = 0"
    "target_arclength (snd (reset cfg k s)) = 0"
    using assms(1) by (simp_all add: reset_fields)
  then show ?thesis
    using steps_target_ok [of "snd (reset cfg k s)" p cfg k as] assms(2-4) by simp
qed

theorem target_arclength_after_step_witness:
  "t_step (blank far_cfg :: (real, real, unit, nat) env) \<le> 0
   \<and> path (start far_cfg 10 [Finite 0] [Finite 1]) = Some 10
   \<and> 0 \<le> min_la_dist far_cfg
   \<and> 0 \<le> path_length (straight 10 [Finite 0] [Finite 1]) 10
   \<and> target_ok far_cfg 10
        (steps far_cfg (straight 10 [Finite 0] [Finite 1]) [(2, 0)]
           (start far_cfg 10 [Finite 0] [Finite 1]))
   \<and> target_arclength (steps far_cfg (straight 10 [Finite 0] [Finite 1]) [(2, 0)]
           (start far_cfg 10 [Finite 0] [Finite 1])) = 2"
proof -
  have h: "t_step (blank far_cfg :: (real, real, unit, nat) env) \<le> 0
           \<or> (vessel (blank far_cfg :: (real, real, unit, nat) env) \<noteq> None
              \<and> path (blank far_cfg :: (real, real, unit, nat) env) \<noteq> None)"
    by (simp add: blank_def)
  have b: "t_step (blank far_cfg :: (real, real, unit, nat) env) \<le> 0"
    by (simp add: blank_def)
  have p: "path (snd (reset far_cfg (straight 10 [Finite 0] [Finite 1]) (blank far_cfg))) = Some 10"
    using start_fields(2) [of far_cfg 10 "[Finite 0]" "[Finite 1]"] by (simp add: start_def)
  have d: "0 \<le> min_la_dist far_cfg"
    by (simp add: far_cfg_def)
  have l: "0 \<le> path_length (straight 10 [Finite 0] [Finite 1]) 10"
    by (simp add: straight_def)
  note th = target_arclength_after_step [OF h p d l, of "[(2, 0)]", folded start_def]
  have pl: "path_length (straight 10 [Finite 0] [Finite 1]) 10 = 10"
    by (simp add: straight_def)
  from th b d l pl show ?thesis
    by (simp add: start_fields first_step)
qed

text \<open>
  Claim C3 as stated fails right after \<open>reset\<close>: the target is 0 while
  \<open>max_path_prog + min_la_dist = 1\<close> on a path of length 10.
\<close>

theorem target_arclength_after_reset:
  "path (start far_cfg 10 [Finite 0] [Finite 1]) = Some 10
   \<and> path_length (straight 10 [Finite 0] [Finite 1]) 10 = 10
   \<and> \<not> target_ok far_cfg 10 (start far_cfg 10 [Finite 0] [Finite 1])"
  by (simp add: start_fields target_ok_def) (simp add: straight_def far_cfg_def)

subsection \<open>A path of length zero\<close>

lemma step_zero_length_python:
  assumes "track cfg k a s = (Inr prog, s5)" and "path s = Some p" and "path_length k p = 0"
    and "\<not> numpy_scalars k"
  shows "\<exists>e. fst (step cfg k a s) = Inl e"
    and "observe k s5 = (ob, x) \<Longrightarrow> \<not> list_ex isnan ob
           \<Longrightarrow> vstack_obs (past_obs s) ob = Inr rows
           \<Longrightarrow> fst (step cfg k a s) = Inl ZeroDivisionError"
proof -
  have p5: "path s5 = Some p" "past_obs s5 = past_obs s"
    using track_frame [of cfg k a s] assms(1,2) by simp_all
  show "\<exists>e. fst (step cfg k a s) = Inl e"
    using assms(1,3,4) p5
    by (auto simp add: step_def truediv_def Let_def split: prod.splits sum.splits)
  show "fst (step cfg k a s) = Inl ZeroDivisionError"
    if "observe k s5 = (ob, x)" "\<not> list_ex isnan ob" "vstack_obs (past_obs s) ob = Inr rows"
    using that assms(1,3,4) p5
    by (auto simp add: step_def truediv_def Let_def split: prod.splits)
qed

lemma step_zero_length_numpy:
  assumes "track cfg k a s = (Inr prog, s5)" and "path s = Some p" and "path_length k p = 0"
    and "numpy_scalars k"
  shows "step cfg k a s = (Inr (ob', r, dn, i), s')
           \<Longrightarrow> i ''progress'' = Some (if prog = 0 then NaN else if 0 < prog then PosInf else NegInf)"
    and "observe k s5 = (ob, x) \<Longrightarrow> \<not> list_ex isnan ob
           \<Longrightarrow> vstack_obs (past_obs s) ob = Inr rows
           \<Longrightarrow> \<exists>out. fst (step cfg k a s) = Inr out"
proof -
  have p5: "path s5 = Some p" "past_obs s5 = past_obs s"
    using track_frame [of cfg k a s] assms(1,2) by simp_all
  show "i ''progress'' = Some (if prog = 0 then NaN else if 0 < prog then PosInf else NegInf)"
    if "step cfg k a s = (Inr (ob', r, dn, i), s')"
    using that assms(1,3,4) p5
    by (auto simp add: step_def truediv_def Let_def
          split: prod.splits sum.splits if_splits)
  show "\<exists>out. fst (step cfg k a s) = Inr out"
    if "observe k s5 = (ob, x)" "\<not> list_ex isnan ob" "vstack_obs (past_obs s) ob = Inr rows"
    using that assms(1,3,4) p5
    by (auto simp add: step_def truediv_def Let_def split: prod.splits)
qed

text \<open>
  Claim C6, as the code has it. On a path of length 0 the clamp \<open>min(max(0, .), 0)\<close>
  divides nothing and the forward-projected progress is 0 (the closest-point branch
  yields the arclength the path reports). The fractional progress of line 188 is
  \<open>prog / path.length\<close> with no guard, so the step divides by zero there, once the
  observation has passed its check and been stored: with numpy scalars the call
  returns, and \<open>info['progress']\<close> is \<open>nan\<close> for progress 0 and an infinity otherwise;
  with plain Python numbers the call does not return and ends in \<open>ZeroDivisionError\<close>.
\<close>

theorem zero_length_path:
  fixes cfg :: config and k :: "('v, 'p, 'o, 'r) scenario" and a :: action
    and s :: "('v, 'p, 'o, 'r) env"
  assumes "vessel s = Some v0" and "path s = Some p" and "path_length k p = 0"
    and "get_closest_point_distance k p (position k (vessel_step k a v0)) = (d, cp, ca)"
  shows "progress cfg k p (vessel_step k a v0) (max_path_prog s) =
           (if d < max_closest_point_distance cfg
               \<or> \<bar>princip k (get_direction k p ca - course k (vessel_step k a v0))\<bar>
                   < max_closest_point_heading_error cfg
            then ca else 0)
         \<and> path_prog (snd (step cfg k a s)) =
             Some (np_append (path_prog s)
                     (progress cfg k p (vessel_step k a v0) (max_path_prog s)))
         \<and> (\<forall>ob x rows.
               observe k (snd (track cfg k a s)) = (ob, x) \<and> NaN \<notin> set ob
               \<and> vstack_obs (past_obs s) ob = Inr rows
                 \<longrightarrow> (if numpy_scalars k then \<exists>out. fst (step cfg k a s) = Inr out
                      else fst (step cfg k a s) = Inl ZeroDivisionError))
         \<and> (\<forall>ob r dn i s'.
               numpy_scalars k \<and> step cfg k a s = (Inr (ob, r, dn, i), s')
                 \<longrightarrow> i ''progress'' =
                       Some (if progress cfg k p (vessel_step k a v0) (max_path_prog s) = 0
                             then NaN
                             else if 0 < progress cfg k p (vessel_step k a v0) (max_path_prog s)
                                  then PosInf else NegInf))
         \<and> (numpy_scalars k \<or> (\<exists>e. fst (step cfg k a s) = Inl e))"
proof -
  have tr: "track cfg k a s = (fst (track cfg k a s), snd (track cfg k a s))"
    by simp
  have "fst (track cfg k a s)
          = Inr (progress cfg k p (vessel_step k a v0) (max_path_prog s))"
    using assms(1,2) by (rule track_Some)
  with tr have tr': "track cfg k a s
      = (Inr (progress cfg k p (vessel_step k a v0) (max_path_prog s)), snd (track cfg k a s))"
    by simp
  have 1: "progress cfg k p (vessel_step k a v0) (max_path_prog s) =
           (if d < max_closest_point_distance cfg
               \<or> \<bar>princip k (get_direction k p ca - course k (vessel_step k a v0))\<bar>
                   < max_closest_point_heading_error cfg
            then ca else 0)"
    using assms by (simp add: progress_def Let_def)
  have 2: "path_prog (snd (step cfg k a s)) =
             Some (np_append (path_prog s)
                     (progress cfg k p (vessel_step k a v0) (max_path_prog s)))"
    using assms(1,2) by (simp add: step_frame track_Some)
  have 3: "if numpy_scalars k then \<exists>out. fst (step cfg k a s) = Inr out
           else fst (step cfg k a s) = Inl ZeroDivisionError"
    if "observe k (snd (track cfg k a s)) = (ob, x) \<and> NaN \<notin> set ob
        \<and> vstack_obs (past_obs s) ob = Inr rows" for ob x rows
  proof (cases "numpy_scalars k")
    case True
    with step_zero_length_numpy(2) [OF tr' assms(2,3) True, of ob x rows] that
    show ?thesis by (simp add: list_ex_isnan)
  next
    case False
    with step_zero_length_python(2) [OF tr' assms(2,3) False, of ob x rows] that
    show ?thesis by (simp add: list_ex_isnan)
  qed
  have 4: "i ''progress'' =
             Some (if progress cfg k p (vessel_step k a v0) (max_path_prog s) = 0
                   then NaN
                   else if 0 < progress cfg k p (vessel_step k a v0) (max_path_prog s)
                        then PosInf else NegInf)"
    if "numpy_scalars k \<and> step cfg k a s = (Inr (ob, r, dn, i), s')" for ob r dn i s'
    using step_zero_length_numpy(1) [OF tr' assms(2,3), of ob r dn i s'] that by blast
  have 5: "numpy_scalars k \<or> (\<exists>e. fst (step cfg k a s) = Inl e)"
    using step_zero_length_python(1) [OF tr' assms(2,3)] by blast
  from 1 2 3 4 5 show ?thesis
    by blast
qed

lemma reset_plain:
  "reset cfg (plain L ob0 ob1) s = reset cfg (straight L ob0 ob1) s"
  by (rule reset_cong) (simp_all add: plain_def)

lemma zero_step:
  "fst (step far_cfg (straight 0 [Finite 0] [Finite 1]) (2, 0)
          (start far_cfg 0 [Finite 0] [Finite 1]))
     = Inr ([Finite 0], 1, False, [''progress'' \<mapsto> NaN])"
  "path_prog (snd (step far_cfg (straight 0 [Finite 0] [Finite 1]) (2, 0)
          (start far_cfg 0 [Finite 0] [Finite 1]))) = Some [None, Some 0]"
  "fst (step far_cfg (plain 0 [Finite 0] [Finite 1]) (2, 0)
          (start far_cfg 0 [Finite 0] [Finite 1])) = Inl ZeroDivisionError"
  by (simp_all add: step_def truediv_def track_def progress_def vstack_obs_def isnan_def
        start_fields plain_def straight_def far_cfg_def np_append_def Let_def)

theorem zero_length_path_witness:
  "vessel (start far_cfg 0 [Finite 0] [Finite 1]) = Some 0
   \<and> path (start far_cfg 0 [Finite 0] [Finite 1]) = Some 0
   \<and> path_length (straight 0 [Finite 0] [Finite 1]) 0 = 0
   \<and> get_closest_point_distance (straight 0 [Finite 0] [Finite 1]) 0
        (position (straight 0 [Finite 0] [Finite 1])
           (vessel_step (straight 0 [Finite 0] [Finite 1]) (2, 0) 0))
       = (0, (2, 0), 0)
   \<and> numpy_scalars (straight 0 [Finite 0] [Finite 1])
   \<and> path_prog (snd (step far_cfg (straight 0 [Finite 0] [Finite 1]) (2, 0)
                        (start far_cfg 0 [Finite 0] [Finite 1])))
       = Some [None, Some 0]
   \<and> returned_info (fst (step far_cfg (straight 0 [Finite 0] [Finite 1]) (2, 0)
                        (start far_cfg 0 [Finite 0] [Finite 1]))) ''progress''
       = Some NaN"
proof -
  have v: "vessel (start far_cfg 0 [Finite 0] [Finite 1]) = Some 0"
    and p: "path (start far_cfg 0 [Finite 0] [Finite 1]) = Some 0"
    by (simp_all add: start_fields)
  have l: "path_length (straight 0 [Finite 0] [Finite 1]) 0 = 0"
    and n: "numpy_scalars (straight 0 [Finite 0] [Finite 1])"
    by (simp_all add: straight_def)
  have c: "get_closest_point_distance (straight 0 [Finite 0] [Finite 1]) 0
        (position (straight 0 [Finite 0] [Finite 1])
           (vessel_step (straight 0 [Finite 0] [Finite 1]) (2, 0) 0))
       = (0, (2, 0), 0)"
    by (simp add: straight_def)
  note th = zero_length_path [OF v p l c, of far_cfg]
  from th have pr: "progress far_cfg (straight 0 [Finite 0] [Finite 1]) 0
       (vessel_step (straight 0 [Finite 0] [Finite 1]) (2, 0) 0)
       (max_path_prog (start far_cfg 0 [Finite 0] [Finite 1])) = 0"
    by (simp add: far_cfg_def straight_def)
  from th have "path_prog (snd (step far_cfg (straight 0 [Finite 0] [Finite 1]) (2, 0)
                        (start far_cfg 0 [Finite 0] [Finite 1])))
       = Some (np_append (path_prog (start far_cfg 0 [Finite 0] [Finite 1])) 0)"
    by (simp only: pr)
  then have pp: "path_prog (snd (step far_cfg (straight 0 [Finite 0] [Finite 1]) (2, 0)
                        (start far_cfg 0 [Finite 0] [Finite 1]))) = Some [None, Some 0]"
    by (simp add: start_fields np_append_def)
  from v p l c n pp show ?thesis
    by (simp add: returned_info_def zero_step(1))
qed

text \<open>
  Claim C6 as stated fails: on a path of length 0 the step divides by zero. With numpy
  scalars it returns the \<open>nan\<close> of \<open>0/0\<close> as fractional progress; with plain Python
  numbers it raises \<open>ZeroDivisionError\<close>.
\<close>

theorem zero_length_path_divides:
  "path (snd (reset far_cfg (straight 0 [Finite 0] [Finite 1]) (blank far_cfg))) = Some 0
   \<and> path_length (straight 0 [Finite 0] [Finite 1]) 0 = 0
   \<and> returned_info
        (fst (step far_cfg (straight 0 [Finite 0] [Finite 1]) (2, 0)
                (snd (reset far_cfg (straight 0 [Finite 0] [Finite 1]) (blank far_cfg)))))
        ''progress'' = Some NaN
   \<and> path (snd (reset far_cfg (plain 0 [Finite 0] [Finite 1]) (blank far_cfg))) = Some 0
   \<and> path_length (plain 0 [Finite 0] [Finite 1]) 0 = 0
   \<and> fst (step far_cfg (plain 0 [Finite 0] [Finite 1]) (2, 0)
            (snd (reset far_cfg (plain 0 [Finite 0] [Finite 1]) (blank far_cfg))))
       = Inl ZeroDivisionError"
  by (simp add: reset_plain start_def [symmetric] start_fields zero_step returned_info_def)
     (simp add: plain_def straight_def)

subsection \<open>The sensor fan\<close>

lemma fan_length: "length (sensor_fan cfg) = nat (nsensors cfg)"
  by (simp add: sensor_fan_def)

lemma fan_nth:
  assumes "i < length (sensor_fan cfg)"
  shows "sensor_fan cfg ! i = - pi / 2 + (real i + 1) / (of_int (nsensors cfg) + 1) * pi"
proof -
  from assms have "i < nat (nsensors cfg)" by (simp add: fan_length)
  then have "[0..nsensors cfg - 1] ! i = int i"
    by (simp add: nth_upto)
  with assms show ?thesis
    by (simp add: sensor_fan_def)
qed

lemma fan_spacing:
  assumes "Suc i < length (sensor_fan cfg)"
  shows "sensor_fan cfg ! Suc i - sensor_fan cfg ! i = pi / (of_int (nsensors cfg) + 1)"
proof -
  from assms have i: "i < length (sensor_fan cfg)" by simp
  have "(x + 1) / N * pi - x / N * pi = pi / N" for x N :: real
    by (simp add: add_divide_distrib distrib_right)
  from this [of "real i + 1" "of_int (nsensors cfg) + 1"]
  have "(real (Suc i) + 1) / (of_int (nsensors cfg) + 1) * pi
          - (real i + 1) / (of_int (nsensors cfg) + 1) * pi
        = pi / (of_int (nsensors cfg) + 1)"
    by (simp add: add.commute)
  then show ?thesis
    using assms i by (simp only: fan_nth)
qed

lemma fan_range:
  assumes "i < length (sensor_fan cfg)"
  shows "- pi / 2 < sensor_fan cfg ! i" and "sensor_fan cfg ! i < pi / 2"
proof -
  from assms have n: "real i < of_int (nsensors cfg)"
    by (simp add: fan_length)
  define q where "q = (real i + 1) / (of_int (nsensors cfg) + 1)"
  have q: "0 < q" "q < 1"
    using n by (simp_all add: q_def)
  have "0 < q * pi" using q(1) by simp
  moreover have "q * pi < 1 * pi" using q(2) by (simp only: mult_less_cancel_right_pos pi_gt_zero)
  ultimately show "- pi / 2 < sensor_fan cfg ! i" and "sensor_fan cfg ! i < pi / 2"
    using assms by (simp_all add: fan_nth q_def [symmetric])
qed

lemma fan_ends:
  assumes "sensor_fan cfg \<noteq> []"
  shows "hd (sensor_fan cfg) - (- pi / 2) = pi / (of_int (nsensors cfg) + 1)"
    and "pi / 2 - last (sensor_fan cfg) = pi / (of_int (nsensors cfg) + 1)"
proof -
  from assms have pos: "0 < length (sensor_fan cfg)" by simp
  then have n: "0 < nsensors cfg" by (simp add: fan_length)
  have "hd (sensor_fan cfg) = sensor_fan cfg ! 0"
    using assms by (simp add: hd_conv_nth)
  then show "hd (sensor_fan cfg) - (- pi / 2) = pi / (of_int (nsensors cfg) + 1)"
    using pos by (simp add: fan_nth)
  have "last (sensor_fan cfg) = sensor_fan cfg ! (nat (nsensors cfg) - 1)"
    using assms by (simp add: last_conv_nth fan_length)
  moreover have "real (nat (nsensors cfg) - 1) + 1 = of_int (nsensors cfg)"
    using n by (simp add: of_nat_diff)
  ultimately have "last (sensor_fan cfg)
      = - pi / 2 + of_int (nsensors cfg) / (of_int (nsensors cfg) + 1) * pi"
    using pos n by (simp add: fan_nth fan_length)
  then show "pi / 2 - last (sensor_fan cfg) = pi / (of_int (nsensors cfg) + 1)"
    using n by (simp add: field_simps)
qed

lemma reset_sensor_angles: "sensor_angles (snd (reset cfg k s)) = sensor_angles s"
  by (auto simp add: reset_def regenerate_def Let_def
        split: prod.splits sum.splits option.splits if_splits)

text \<open>
  Claim C7. The sensor angles set by the constructor number \<open>nsectors\<close> times
  \<open>sensors_per_sector\<close> (a non-negative count), consecutive angles differ by the same
  amount \<open>pi / (nsensors + 1)\<close>, every angle lies in the arc from \<open>-pi/2\<close> (excluded) to
  \<open>pi/2\<close>, and the fan spans the arc evenly: the first angle is one spacing above
  \<open>-pi/2\<close> and the last one spacing below \<open>pi/2\<close>. Neither \<open>reset\<close> nor \<open>step\<close> changes
  the angles.
\<close>

theorem sensor_fan_geometry:
  assumes "0 \<le> nsensors cfg"
  shows "int (length (sensor_fan cfg)) = n_sectors cfg * n_sensors_per_sector cfg
         \<and> (\<forall>i. Suc i < length (sensor_fan cfg) \<longrightarrow>
               sensor_fan cfg ! Suc i - sensor_fan cfg ! i = pi / (of_int (nsensors cfg) + 1))
         \<and> (\<forall>x \<in> set (sensor_fan cfg). - pi / 2 < x \<and> x \<le> pi / 2)
         \<and> (sensor_fan cfg \<noteq> [] \<longrightarrow>
               hd (sensor_fan cfg) - (- pi / 2) = pi / (of_int (nsensors cfg) + 1)
               \<and> pi / 2 - last (sensor_fan cfg) = pi / (of_int (nsensors cfg) + 1))
         \<and> sensor_angles (blank cfg :: ('v, 'p, 'o, 'r) env) = sensor_fan cfg
         \<and> sensor_angles (snd (reset cfg k (s :: ('v, 'p, 'o, 'r) env))) = sensor_angles s
         \<and> sensor_angles (snd (step cfg k a s)) = sensor_angles s"
proof -
  have 1: "int (length (sensor_fan cfg)) = n_sectors cfg * n_sensors_per_sector cfg"
    using assms by (simp add: fan_length) (simp add: nsensors_def mult.commute)
  have 3: "\<forall>x \<in> set (sensor_fan cfg). - pi / 2 < x \<and> x \<le> pi / 2"
  proof
    fix x assume "x \<in> set (sensor_fan cfg)"
    then obtain i where "i < length (sensor_fan cfg)" "x = sensor_fan cfg ! i"
      by (auto simp add: in_set_conv_nth)
    with fan_range [of i cfg] show "- pi / 2 < x \<and> x \<le> pi / 2"
      by simp
  qed
  have 5: "sensor_angles (blank cfg :: ('v, 'p, 'o, 'r) env) = sensor_fan cfg"
    by (simp add: blank_def)
  have 2: "\<forall>i. Suc i < length (sensor_fan cfg) \<longrightarrow>
             sensor_fan cfg ! Suc i - sensor_fan cfg ! i = pi / (of_int (nsensors cfg) + 1)"
    using fan_spacing by blast
  have 4: "sensor_fan cfg \<noteq> [] \<longrightarrow>
             hd (sensor_fan cfg) - (- pi / 2) = pi / (of_int (nsensors cfg) + 1)
             \<and> pi / 2 - last (sensor_fan cfg) = pi / (of_int (nsensors cfg) + 1)"
    using fan_ends by blast
  have 6: "sensor_angles (snd (reset cfg k s)) = sensor_angles s"
    by (rule reset_sensor_angles)
  have 7: "sensor_angles (snd (step cfg k a s)) = sensor_angles s"
    by (simp add: step_frame track_frame)
  from 1 2 3 4 5 6 7 show ?thesis
    by blast
qed

theorem sensor_fan_geometry_witness:
  "0 \<le> nsensors near_cfg
   \<and> int (length (sensor_fan near_cfg)) = 2 * 3
   \<and> sensor_fan near_cfg ! Suc 0 - sensor_fan near_cfg ! 0 = pi / 7
   \<and> sensor_fan near_cfg \<noteq> []
   \<and> pi / 2 - last (sensor_fan near_cfg) = pi / 7"
proof -
  have n: "nsensors near_cfg = 6"
    by (simp add: nsensors_def near_cfg_def)
  have h: "0 \<le> nsensors near_cfg"
    by (simp add: n)
  note th = sensor_fan_geometry [OF h]
  have l: "length (sensor_fan near_cfg) = 6"
    by (simp add: fan_length n)
  then have ne: "sensor_fan near_cfg \<noteq> []"
    by auto
  from th [THEN conjunct1] th [THEN conjunct2, THEN conjunct1, rule_format, of 0]
    th [THEN conjunct2, THEN conjunct2, THEN conjunct2, THEN conjunct1, rule_format, OF ne]
    h l ne n
  show ?thesis
    by (simp add: near_cfg_def)
qed

subsection \<open>The declared observation space\<close>

text \<open>
  Claim C8, as the code has it. For a non-negative number of sectors the bounds of the
  observation space have \<open>7 + 2 * n_sectors\<close> entries; every entry is bounded by
  \<open>[-1, 1]\<close> except the one at index \<open>nstates - 1 = 6\<close>, the last of the seven state
  features, which is bounded by \<open>[-10000, 10000]\<close>.
\<close>

theorem observation_space_bounds:
  assumes "0 \<le> n_sectors cfg"
  shows "\<exists>low_obs high_obs.
           observation_space cfg = Inr (low_obs, high_obs)
           \<and> int (length low_obs) = 7 + 2 * n_sectors cfg
           \<and> length high_obs = length low_obs
           \<and> low_obs ! 6 = - 10000 \<and> high_obs ! 6 = 10000
           \<and> (\<forall>i < length low_obs. i \<noteq> 6 \<longrightarrow> low_obs ! i = - 1 \<and> high_obs ! i = 1)"
proof -
  have n: "nat (nstates - 1) = 6" "nat (nstates + n_sectors cfg * 2) = 7 + nat (2 * n_sectors cfg)"
    using assms by (simp_all add: nstates_def nat_add_distrib mult.commute)
  show ?thesis
    using assms by (simp add: observation_space_def Let_def n)
qed

theorem observation_space_bounds_witness:
  "0 \<le> n_sectors near_cfg
   \<and> obs_bounds_at near_cfg 0 = Some (- 1, 1)
   \<and> obs_bounds_at near_cfg 10 = Some (- 1, 1)
   \<and> obs_bounds_at near_cfg 11 = None"
proof -
  have h: "0 \<le> n_sectors near_cfg"
    by (simp add: near_cfg_def)
  from observation_space_bounds [OF h] obtain low_obs high_obs where
    sp: "observation_space near_cfg = Inr (low_obs, high_obs)"
    and len: "int (length low_obs) = 7 + 2 * n_sectors near_cfg" "length high_obs = length low_obs"
    and rest: "\<forall>i < length low_obs. i \<noteq> 6 \<longrightarrow> low_obs ! i = - 1 \<and> high_obs ! i = 1"
    by blast
  from len have l: "length low_obs = 11" "length high_obs = 11"
    by (simp_all add: near_cfg_def)
  from rest l have "low_obs ! 0 = - 1 \<and> high_obs ! 0 = 1" "low_obs ! 10 = - 1 \<and> high_obs ! 10 = 1"
    by simp_all
  with sp l h show ?thesis
    by (auto simp add: obs_bounds_at_def)
qed

text \<open>
  Claim C8 as stated fails: the second state feature slot (index 1) is bounded by
  \<open>[-1, 1]\<close>; the extended range is at index 6.
\<close>

theorem extended_slot_is_last_state:
  "obs_bounds_at near_cfg 1 = Some (- 1, 1)
   \<and> obs_bounds_at near_cfg 6 = Some (- 10000, 10000)"
  by (simp add: obs_bounds_at_def observation_space_def nstates_def near_cfg_def Let_def
        eval_nat_numeral)

subsection \<open>States that calls can reach\<close>

text \<open>
  The constructor leaves the environment with a vessel, a path and the sensor fan, and
  every later call of \<open>step\<close> or \<open>reset\<close> keeps a vessel and a path: the hypotheses
  "the state has a vessel and a path" hold of every state a caller can observe.
\<close>

lemma step_keeps_vessel_and_path:
  assumes "vessel s \<noteq> None \<and> path s \<noteq> None"
  shows "vessel (snd (step cfg k a s)) \<noteq> None \<and> path (snd (step cfg k a s)) \<noteq> None"
proof -
  from assms obtain v0 p where v: "vessel s = Some v0" and p: "path s = Some p"
    by auto
  show ?thesis
    by (simp add: step_frame track_frame track_Some [OF v p] p)
qed

lemma reset_keeps_vessel_and_path:
  assumes "t_step s \<le> 0 \<or> (vessel s \<noteq> None \<and> path s \<noteq> None)"
  shows "vessel (snd (reset cfg k s)) \<noteq> None \<and> path (snd (reset cfg k s)) \<noteq> None"
  using assms by (simp add: reset_fields)

lemma construct_has_vessel_and_path:
  assumes "construct cfg k = Inr (s, sp)"
  shows "vessel s \<noteq> None \<and> path s \<noteq> None \<and> sensor_angles s = sensor_fan cfg"
proof -
  have b: "t_step (blank cfg :: ('a, 'b, 'c, 'd) env) \<le> 0
           \<or> (vessel (blank cfg :: ('a, 'b, 'c, 'd) env) \<noteq> None
              \<and> path (blank cfg :: ('a, 'b, 'c, 'd) env) \<noteq> None)"
    by (simp add: blank_def)
  from assms have "s = snd (reset cfg k (blank cfg))"
    by (auto simp add: construct_def split: prod.splits sum.splits)
  with reset_keeps_vessel_and_path [OF b, of cfg k] show ?thesis
    by (simp add: reset_sensor_angles blank_def)
qed

end
